theory Spec2Isabelle
  imports Main "HOL-Library.Sublist"
begin

section \<open>Values of the runtime\<close>

text \<open>
  The bridge handles JSON: frames of both legs are parsed with \<^verbatim>\<open>JSON.parse\<close>, tool
  arguments and tool results are plain objects. A value is one of JavaScript's JSON
  values, or \<^verbatim>\<open>undefined\<close> (what reading an absent property gives). Numbers are kept as
  integers: the program only ever tests a number for truthiness. An object is the list of
  its own properties, each key once, as \<^verbatim>\<open>JSON.parse\<close> makes it.
\<close>

datatype json =
    JUndefined
  | JNull
  | JBool bool
  | JNum int
  | JStr string
  | JArr "json list"
  | JObj "(string \<times> json) list"

datatype error =
    SyntaxError
  | TypeError
  | TwilioError string
  | NotOpenError

text \<open>
  An \<^verbatim>\<open>async\<close> function hands back a promise, which ends fulfilled with a value, ends
  rejected with an error, or is never settled (no timeout is set anywhere on the
  notification request).
\<close>

datatype 'a promise = Fulfilled 'a | Rejected error | Pending

text \<open>Truthiness, as \<^verbatim>\<open>||\<close>, \<^verbatim>\<open>&&\<close> and \<^verbatim>\<open>if\<close> test it.\<close>

fun truthy :: "json \<Rightarrow> bool" where
  "truthy JUndefined = False"
| "truthy JNull = False"
| "truthy (JBool b) = b"
| "truthy (JNum n) = (n \<noteq> 0)"
| "truthy (JStr s) = (s \<noteq> [])"
| "truthy (JArr xs) = True"
| "truthy (JObj kvs) = True"

text \<open>
  The property read \<^verbatim>\<open>v.k\<close>: a TypeError on \<^verbatim>\<open>null\<close> and \<^verbatim>\<open>undefined\<close>, the own property
  of an object, \<^verbatim>\<open>undefined\<close> otherwise. This holds for the property names the program
  reads (\<^verbatim>\<open>type\<close>, \<^verbatim>\<open>event\<close>, \<^verbatim>\<open>question\<close>, \<^verbatim>\<open>slotId\<close>, ...), none of which is defined on a
  built-in prototype.
\<close>

fun get_prop :: "json \<Rightarrow> string \<Rightarrow> error + json" where
  "get_prop JUndefined k = Inl TypeError"
| "get_prop JNull k = Inl TypeError"
| "get_prop (JObj kvs) k = Inr (case map_of kvs k of None \<Rightarrow> JUndefined | Some v \<Rightarrow> v)"
| "get_prop v k = Inr JUndefined"

subsection \<open>Strings\<close>

text \<open>
  A string is kept as the bytes of its UTF-8 form; the three punctuation marks of the
  answers that are not ASCII are written as these bytes. The lower-casing of the runtime
  (\<^verbatim>\<open>String.prototype.toLowerCase\<close>) follows the Unicode case tables, which are no part of
  the repository: it is a parameter of the model (see \<open>env\<close> below). On a string of ASCII
  characters it maps the letters A to Z to a to z and keeps every other character, which
  is what \<open>ascii_lower\<close> does; the sample environments of this theory use it, and are
  applied to ASCII strings only.
\<close>

definition ascii_lower_char :: "char \<Rightarrow> char" where
  "ascii_lower_char c =
     (case map_of (zip ''ABCDEFGHIJKLMNOPQRSTUVWXYZ'' ''abcdefghijklmnopqrstuvwxyz'') c of
        None \<Rightarrow> c
      | Some l \<Rightarrow> l)"

definition ascii_lower :: "string \<Rightarrow> string" where
  "ascii_lower s = map ascii_lower_char s"

text \<open>
  \<^verbatim>\<open>s.includes(t)\<close>: \<open>t\<close> occurs in \<open>s\<close> as a contiguous run. The keywords searched for
  are ASCII, and an ASCII string occurs in a text exactly when its bytes occur in the
  UTF-8 form of the text.
\<close>

fun includes_str :: "string \<Rightarrow> string \<Rightarrow> bool" where
  "includes_str [] t = (t = [])"
| "includes_str (c # cs) t = (prefix t (c # cs) \<or> includes_str cs t)"

section \<open>Reference data\<close>

definition en_dash :: string where
  "en_dash = [CHR 0xE2, CHR 0x80, CHR 0x93]"

definition em_dash :: string where
  "em_dash = [CHR 0xE2, CHR 0x80, CHR 0x94]"

definition right_quote :: string where
  "right_quote = [CHR 0xE2, CHR 0x80, CHR 0x99]"

record faq =
  hours :: string
  address :: string
  insurance :: string
  parking :: string
  new_patients :: string

definition FAQ :: faq where
  "FAQ = \<lparr>
     hours = ''Mon'' @ en_dash @ ''Fri 8am'' @ en_dash @ ''5pm; Sat 9am'' @ en_dash
               @ ''1pm; closed Sunday.'',
     address = ''1234 Naples Blvd, Suite 200, Naples, FL 34102.'',
     insurance =
       ''We accept most PPO plans including Delta Dental and Cigna. Call for specifics.'',
     parking = ''Free lot behind the building; enter via 2nd Street.'',
     new_patients = ''Yes, we'' @ right_quote
               @ ''re accepting new patients. Bring a photo ID and your insurance card.'' \<rparr>"

definition deflection :: string where
  "deflection = ''I'm not sure'' @ em_dash @ ''let me connect you to our staff.''"

record slot =
  slot_id :: string
  label :: string

definition SLOTS_initial :: "slot list" where
  "SLOTS_initial =
     [\<lparr>slot_id = ''tue-1030'', label = ''Tue 10:30 AM (Hygienist)''\<rparr>,
      \<lparr>slot_id = ''tue-1415'', label = ''Tue 2:15 PM (Hygienist)''\<rparr>,
      \<lparr>slot_id = ''wed-0900'', label = ''Wed 9:00 AM (Dr. Lee)''\<rparr>]"

text \<open>A slot as the object it is in a tool result.\<close>

definition slot_json :: "slot \<Rightarrow> json" where
  "slot_json s = JObj [(''id'', JStr (slot_id s)), (''label'', JStr (label s))]"

section \<open>The process and its collaborators\<close>

text \<open>
  \<^verbatim>\<open>SLOTS\<close> is a module-level array: its binding is constant, its elements could be
  written by any code of the process, so it is held in the state of the process and its
  never being written is a theorem. The state also records every call of \<^verbatim>\<open>sendSMS\<close>
  (recipient and text), oldest first.
\<close>

record world =
  SLOTS :: "slot list"
  sms_calls :: "(json \<times> json) list"

definition world_initial :: world where
  "world_initial = \<lparr>SLOTS = SLOTS_initial, sms_calls = []\<rparr>"

text \<open>
  What is outside the repository is a parameter: the Twilio client, which answers a
  message request with a message identifier, a failure, or never (it is given the earlier
  requests, so that its answers may change over time), \<^verbatim>\<open>JSON.stringify\<close>, and the
  lower-casing of strings.
\<close>

record env =
  twilio :: "(json \<times> json) list \<Rightarrow> json \<Rightarrow> json \<Rightarrow> json promise"
  stringify :: "json \<Rightarrow> string"
  toLowerCase_str :: "string \<Rightarrow> string"

text \<open>
  The method call \<^verbatim>\<open>v.toLowerCase()\<close> on a value that is not nullish: only a string has
  the method, on anything else the call is a TypeError (\<^verbatim>\<open>v.toLowerCase\<close> is not a function).
\<close>

fun toLowerCase :: "env \<Rightarrow> json \<Rightarrow> error + string" where
  "toLowerCase env (JStr s) = Inr (toLowerCase_str env s)"
| "toLowerCase env v = Inl TypeError"

definition sendSMS :: "env \<Rightarrow> json \<Rightarrow> json \<Rightarrow> world \<Rightarrow> json promise \<times> world" where
  "sendSMS env to body w =
     (twilio env (sms_calls w) to body, w\<lparr>sms_calls := sms_calls w @ [(to, body)]\<rparr>)"

section \<open>Tool router\<close>

text \<open>The keyword chain of \<^verbatim>\<open>getFAQ\<close>, on the lower-cased question.\<close>

definition answer :: "string \<Rightarrow> string" where
  "answer q =
     (if includes_str q ''hour'' then hours FAQ
      else if includes_str q ''address'' \<or> includes_str q ''location'' then address FAQ
      else if includes_str q ''insurance'' then insurance FAQ
      else if includes_str q ''parking'' then parking FAQ
      else if includes_str q ''new patient'' then new_patients FAQ
      else deflection)"

definition getFAQ :: "env \<Rightarrow> json \<Rightarrow> world \<Rightarrow> json promise \<times> world" where
  "getFAQ env args w =
     (case get_prop args ''question'' of
        Inl e \<Rightarrow> (Rejected e, w)
      | Inr question \<Rightarrow>
          (case toLowerCase env (if truthy question then question else JStr []) of
             Inl e \<Rightarrow> (Rejected e, w)
           | Inr q \<Rightarrow> (Fulfilled (JObj [(''answer'', JStr (answer q))]), w)))"

definition getSlots :: "world \<Rightarrow> json promise \<times> world" where
  "getSlots w = (Fulfilled (JObj [(''slots'', JArr (map slot_json (SLOTS w)))]), w)"

definition booked :: "slot \<Rightarrow> json" where
  "booked found = JObj [(''ok'', JBool True), (''booked'', slot_json found)]"

definition slot_not_found :: json where
  "slot_not_found = JObj [(''ok'', JBool False), (''error'', JStr ''Slot not found'')]"

definition unknown_tool :: json where
  "unknown_tool = JObj [(''ok'', JBool False), (''error'', JStr ''Unknown tool'')]"

definition bookSlot :: "env \<Rightarrow> json \<Rightarrow> world \<Rightarrow> json promise \<times> world" where
  "bookSlot env args w =
     (case get_prop args ''slotId'' of
        Inl e \<Rightarrow> (Rejected e, w)
      | Inr slotId \<Rightarrow>
          (case find (\<lambda>s. JStr (slot_id s) = slotId) (SLOTS w) of
             None \<Rightarrow> (Fulfilled slot_not_found, w)
           | Some found \<Rightarrow>
               (case get_prop args ''phone'' of
                  Inl e \<Rightarrow> (Rejected e, w)
                | Inr phone \<Rightarrow>
                    if truthy phone then
                      (case sendSMS env phone
                              (JStr (''Booked: '' @ label found @ ''. Address: '' @ address FAQ)) w of
                         (Fulfilled sid, w') \<Rightarrow> (Fulfilled (booked found), w')
                       | (Rejected e, w') \<Rightarrow> (Rejected e, w')
                       | (Pending, w') \<Rightarrow> (Pending, w'))
                    else (Fulfilled (booked found), w))))"

definition sendSMS_tool :: "env \<Rightarrow> json \<Rightarrow> world \<Rightarrow> json promise \<times> world" where
  "sendSMS_tool env args w =
     (case get_prop args ''to'' of
        Inl e \<Rightarrow> (Rejected e, w)
      | Inr to \<Rightarrow>
          (case get_prop args ''message'' of
             Inl e \<Rightarrow> (Rejected e, w)
           | Inr message \<Rightarrow>
               (case sendSMS env to message w of
                  (Fulfilled sid, w') \<Rightarrow>
                    (Fulfilled (JObj [(''ok'', JBool True), (''sid'', sid)]), w')
                | (Rejected e, w') \<Rightarrow> (Rejected e, w')
                | (Pending, w') \<Rightarrow> (Pending, w'))))"

definition handleToolCall :: "env \<Rightarrow> json \<Rightarrow> json \<Rightarrow> world \<Rightarrow> json promise \<times> world" where
  "handleToolCall env name args w =
     (if name = JStr ''getFAQ'' then getFAQ env args w
      else if name = JStr ''getSlots'' then getSlots w
      else if name = JStr ''bookSlot'' then bookSlot env args w
      else if name = JStr ''sendSMS'' then sendSMS_tool env args w
      else (Fulfilled unknown_tool, w))"

section \<open>One call: the two sockets and the console\<close>

text \<open>
  A session is what the closure of \<^verbatim>\<open>handleTwilioMedia\<close> holds once both sockets exist:
  the ready state of each socket (0 connecting, 1 open, 2 closing, 3 closed), the objects
  handed to \<^verbatim>\<open>JSON.stringify\<close> and sent on each socket, oldest first, and the lines
  written to the console.
\<close>

datatype arg = S string | J json | E error

datatype line = Log "arg list" | Err "arg list"

record session =
  rt_readyState :: nat
  ws_readyState :: nat
  rt_sent :: "json list"
  ws_sent :: "json list"
  console :: "line list"

definition console_log :: "arg list \<Rightarrow> session \<Rightarrow> session" where
  "console_log args s = s\<lparr>console := console s @ [Log args]\<rparr>"

definition console_error :: "arg list \<Rightarrow> session \<Rightarrow> session" where
  "console_error args s = s\<lparr>console := console s @ [Err args]\<rparr>"

text \<open>
  \<^verbatim>\<open>send\<close> of the socket library: an error while the socket is still connecting, the
  frame on the wire while it is open, nothing once it is closing or closed.
\<close>

definition rt_send :: "json \<Rightarrow> session \<Rightarrow> error + session" where
  "rt_send m s =
     (if rt_readyState s = 0 then Inl NotOpenError
      else if rt_readyState s = 1 then Inr (s\<lparr>rt_sent := rt_sent s @ [m]\<rparr>)
      else Inr s)"

definition ws_send :: "json \<Rightarrow> session \<Rightarrow> error + session" where
  "ws_send m s =
     (if ws_readyState s = 0 then Inl NotOpenError
      else if ws_readyState s = 1 then Inr (s\<lparr>ws_sent := ws_sent s @ [m]\<rparr>)
      else Inr s)"

text \<open>The spec's name for the time both legs are open.\<close>

definition ACTIVE :: "session \<Rightarrow> bool" where
  "ACTIVE s = (rt_readyState s = 1 \<and> ws_readyState s = 1)"

text \<open>
  A property read whose receiver has been read from before, and so is neither \<^verbatim>\<open>null\<close>
  nor \<^verbatim>\<open>undefined\<close>; and the optional read \<^verbatim>\<open>v?.k\<close>.
\<close>

definition read_prop :: "json \<Rightarrow> string \<Rightarrow> json" where
  "read_prop v k = (case get_prop v k of Inl e \<Rightarrow> JUndefined | Inr x \<Rightarrow> x)"

definition opt_prop :: "json \<Rightarrow> string \<Rightarrow> json" where
  "opt_prop v k = (if v = JNull \<or> v = JUndefined then JUndefined else read_prop v k)"

subsection \<open>Model leg to caller: audio and tool calls\<close>

text \<open>
  A frame is what \<^verbatim>\<open>JSON.parse\<close> makes of the message: \<open>None\<close> when it throws. The
  handler is \<^verbatim>\<open>async\<close>: its promise is rejected where an error leaves it, and is never
  settled while the tool call it awaits is not.
\<close>

definition function_call_output :: "env \<Rightarrow> json \<Rightarrow> json \<Rightarrow> json" where
  "function_call_output env call_id result =
     JObj [(''type'', JStr ''response.function_call_output''),
           (''call_id'', call_id),
           (''output'', JStr (stringify env result))]"

definition function_call ::
  "env \<Rightarrow> json \<Rightarrow> session \<times> world \<Rightarrow> unit promise \<times> session \<times> world" where
  "function_call env evt sw =
     (case sw of (s, w) \<Rightarrow>
        let name = read_prop evt ''name'';
            args = read_prop evt ''arguments'';
            call_id = read_prop evt ''call_id''
        in (case handleToolCall env name (if truthy args then args else JObj []) w of
              (Fulfilled result, w') \<Rightarrow>
                (case rt_send (function_call_output env call_id result) s of
                   Inr s' \<Rightarrow> (Fulfilled (), s', w')
                 | Inl e \<Rightarrow>
                     (Fulfilled (), console_error [S ''tool handler error:'', E e] s, w'))
            | (Rejected e, w') \<Rightarrow>
                (Fulfilled (), console_error [S ''tool handler error:'', E e] s, w')
            | (Pending, w') \<Rightarrow> (Pending, s, w')))"

definition rt_on_message ::
  "env \<Rightarrow> json option \<Rightarrow> session \<times> world \<Rightarrow> unit promise \<times> session \<times> world" where
  "rt_on_message env frame sw =
     (case sw of (s, w) \<Rightarrow>
        (case frame of
           None \<Rightarrow> (Fulfilled (), s, w)
         | Some evt \<Rightarrow>
             (case get_prop evt ''type'' of
                Inl e \<Rightarrow> (Rejected e, s, w)
              | Inr ty \<Rightarrow>
                  let s1 = (if truthy ty \<and> ty \<noteq> JStr ''audio.delta''
                            then console_log
                                   [S ''RT EVT:'', J ty, S (take 400 (stringify env evt))] s
                            else s);
                      s2 = (if ty = JStr ''error''
                            then console_error [S ''RT ERROR:'', J evt] s1
                            else s1)
                  in if ty = JStr ''audio.delta'' then
                       (case ws_send (JObj [(''event'', JStr ''media''),
                                            (''media'', JObj [(''payload'', read_prop evt ''audio'')])])
                               s2 of
                          Inl e \<Rightarrow> (Rejected e, s2, w)
                        | Inr s3 \<Rightarrow> (Fulfilled (), s3, w))
                     else if ty = JStr ''response.function_call'' then
                       function_call env evt (s2, w)
                     else (Fulfilled (), s2, w))))"

subsection \<open>Caller to model leg: audio frames\<close>

definition append_instruction :: "json \<Rightarrow> json" where
  "append_instruction payload =
     JObj [(''type'', JStr ''input_audio_buffer.append''), (''audio'', payload)]"

definition commit_instruction :: json where
  "commit_instruction = JObj [(''type'', JStr ''input_audio_buffer.commit'')]"

definition response_create :: json where
  "response_create = JObj [(''type'', JStr ''response.create'')]"

text \<open>
  The body of the handler is one \<^verbatim>\<open>try\<close> block: the result is the error that left it, if
  any, and the session as it was then.
\<close>

definition ws_on_message_try :: "json option \<Rightarrow> session \<Rightarrow> error option \<times> session" where
  "ws_on_message_try frame s =
     (case frame of
        None \<Rightarrow> (Some SyntaxError, s)
      | Some msg \<Rightarrow>
          (case get_prop msg ''event'' of
             Inl e \<Rightarrow> (Some e, s)
           | Inr event \<Rightarrow>
               if event = JStr ''start'' then
                 (None, console_log
                          [S ''Twilio START:'', J (opt_prop (read_prop msg ''start'') ''callSid'')] s)
               else if event = JStr ''media'' then
                 (if rt_readyState s = 1 then
                    (case get_prop (read_prop msg ''media'') ''payload'' of
                       Inl e \<Rightarrow> (Some e, s)
                     | Inr payload \<Rightarrow>
                         (case rt_send (append_instruction payload) s of
                            Inl e \<Rightarrow> (Some e, s)
                          | Inr s' \<Rightarrow> (None, s')))
                  else (None, s))
               else if event = JStr ''stop'' then
                 (let s1 = console_log [S ''Twilio STOP''] s
                  in if rt_readyState s1 = 1 then
                       (case rt_send commit_instruction s1 of
                          Inl e \<Rightarrow> (Some e, s1)
                        | Inr s2 \<Rightarrow>
                            (case rt_send response_create s2 of
                               Inl e \<Rightarrow> (Some e, s2)
                             | Inr s3 \<Rightarrow> (None, s3)))
                     else (None, s1))
               else (None, s)))"

text \<open>The handler: the \<^verbatim>\<open>catch\<close> is empty, the error stops there.\<close>

definition ws_on_message :: "json option \<Rightarrow> session \<Rightarrow> error option \<times> session" where
  "ws_on_message frame s = (None, snd (ws_on_message_try frame s))"

section \<open>The keyword table as the specification words it\<close>

text \<open>
  The specification describes \<^verbatim>\<open>getFAQ\<close> as a lookup in an ordered table of keyword sets,
  the first row with a keyword occurring in the lower-cased question giving the answer.
\<close>

definition keyword_table :: "(string list \<times> string) list" where
  "keyword_table =
     [([''hour''], hours FAQ),
      ([''address'', ''location''], address FAQ),
      ([''insurance''], insurance FAQ),
      ([''parking''], parking FAQ),
      ([''new patient''], new_patients FAQ)]"

definition lookup_spec :: "env \<Rightarrow> string \<Rightarrow> string" where
  "lookup_spec env question =
     (case find (\<lambda>row. list_ex (\<lambda>k. sublist k (toLowerCase_str env question)) (fst row))
             keyword_table of
        None \<Rightarrow> deflection
      | Some row \<Rightarrow> snd row)"

section \<open>Runs and sample inputs\<close>

text \<open>A sequence of tool calls, each given as name and arguments, made one after another.\<close>

fun run_calls :: "env \<Rightarrow> (json \<times> json) list \<Rightarrow> world \<Rightarrow> world" where
  "run_calls env [] w = w"
| "run_calls env (c # cs) w = run_calls env cs (snd (handleToolCall env (fst c) (snd c) w))"

text \<open>
  Three environments, which differ in their Twilio client: one that sends every message,
  one that fails every request, one that sends the first message of the process and fails
  from then on.
\<close>

definition env_up :: env where
  "env_up = \<lparr>twilio = (\<lambda>earlier to body. Fulfilled (JStr ''SM01'')),
             stringify = (\<lambda>j. ''{}''),
             toLowerCase_str = ascii_lower\<rparr>"

definition env_down :: env where
  "env_down = \<lparr>twilio = (\<lambda>earlier to body. Rejected (TwilioError ''unreachable'')),
               stringify = (\<lambda>j. ''{}''),
               toLowerCase_str = ascii_lower\<rparr>"

definition env_flaky :: env where
  "env_flaky = \<lparr>twilio = (\<lambda>earlier to body.
                   if earlier = [] then Fulfilled (JStr ''SM01'')
                   else Rejected (TwilioError ''unreachable'')),
                stringify = (\<lambda>j. ''{}''),
                toLowerCase_str = ascii_lower\<rparr>"

definition session_active :: session where
  "session_active =
     \<lparr>rt_readyState = 1, ws_readyState = 1, rt_sent = [], ws_sent = [], console = []\<rparr>"

definition reserve_wed :: json where
  "reserve_wed = JObj [(''slotId'', JStr ''wed-0900''), (''name'', JStr ''Jane Doe''),
                       (''phone'', JStr ''+15551234567'')]"

definition reserve_nope :: json where
  "reserve_nope = JObj [(''slotId'', JStr ''nope''), (''name'', JStr ''Jane Doe''),
                        (''phone'', JStr ''+1555...'')]"

definition reserve_tue :: json where
  "reserve_tue = JObj [(''slotId'', JStr ''tue-1030''), (''name'', JStr ''Sam Roe''),
                       (''phone'', JStr ''+15550001111'')]"

definition wed_0900 :: slot where
  "wed_0900 = \<lparr>slot_id = ''wed-0900'', label = ''Wed 9:00 AM (Dr. Lee)''\<rparr>"

definition tue_1030 :: slot where
  "tue_1030 = \<lparr>slot_id = ''tue-1030'', label = ''Tue 10:30 AM (Hygienist)''\<rparr>"

text \<open>
  The Kelvin sign (U+212A), a letter that is not ASCII and whose lower case is the ASCII
  letter k.
\<close>

definition kelvin_sign :: string where
  "kelvin_sign = [CHR 0xE2, CHR 0x84, CHR 0xAA]"


definition call_bookSlot :: json where
  "call_bookSlot =
     JObj [(''type'', JStr ''response.function_call''), (''name'', JStr ''bookSlot''),
           (''arguments'', reserve_tue), (''call_id'', JStr ''call_2'')]"

section \<open>Properties of the tool router\<close>

lemma includes_str_sublist: "includes_str s t \<longleftrightarrow> sublist t s"
  by (induction s) (auto simp: sublist_Cons_right)

lemma get_prop_Inr_any: "get_prop v k = Inr x \<Longrightarrow> get_prop v k' = Inr (read_prop v k')"
  by (cases v) (simp_all add: read_prop_def)

lemma answer_lookup_spec: "answer (toLowerCase_str env question) = lookup_spec env question"
  by (simp add: answer_def lookup_spec_def keyword_table_def includes_str_sublist)

lemma getFAQ_string:
  "get_prop args ''question'' = Inr (JStr question) \<Longrightarrow>
   handleToolCall env (JStr ''getFAQ'') args w =
     (Fulfilled (JObj [(''answer'', JStr (answer (toLowerCase_str env question)))]), w)"
  by (cases "question = []") (simp_all add: handleToolCall_def getFAQ_def)

lemma getFAQ_SLOTS: "SLOTS (snd (getFAQ env args w)) = SLOTS w"
  by (simp add: getFAQ_def split: sum.split)

lemma sendSMS_SLOTS: "SLOTS (snd (sendSMS env to body w)) = SLOTS w"
  by (simp add: sendSMS_def)

lemma bookSlot_SLOTS: "SLOTS (snd (bookSlot env args w)) = SLOTS w"
  by (simp add: bookSlot_def sendSMS_def split: sum.split option.split promise.split)

lemma sendSMS_tool_SLOTS: "SLOTS (snd (sendSMS_tool env args w)) = SLOTS w"
  by (simp add: sendSMS_tool_def sendSMS_def split: sum.split promise.split)

lemma handleToolCall_SLOTS: "SLOTS (snd (handleToolCall env name args w)) = SLOTS w"
  by (simp add: handleToolCall_def getFAQ_SLOTS bookSlot_SLOTS sendSMS_tool_SLOTS getSlots_def)

lemma run_calls_SLOTS: "SLOTS (run_calls env cs w) = SLOTS w"
  by (induction cs arbitrary: w) (simp_all add: handleToolCall_SLOTS)

lemma bookSlot_known:
  assumes "get_prop args ''slotId'' = Inr slotId"
    and "find (\<lambda>s. JStr (slot_id s) = slotId) (SLOTS w) = Some found"
  shows "fst (handleToolCall env (JStr ''bookSlot'') args w) =
     (if truthy (read_prop args ''phone'') then
        (case twilio env (sms_calls w) (read_prop args ''phone'')
                (JStr (''Booked: '' @ label found @ ''. Address: '' @ address FAQ)) of
           Fulfilled sid \<Rightarrow> Fulfilled (booked found)
         | Rejected e \<Rightarrow> Rejected e
         | Pending \<Rightarrow> Pending)
      else Fulfilled (booked found))"
  using assms get_prop_Inr_any [OF assms(1), of "''phone''"]
  by (simp add: handleToolCall_def bookSlot_def sendSMS_def split: promise.splits)

lemma bookSlot_unknown:
  assumes "get_prop args ''slotId'' = Inr slotId"
    and "find (\<lambda>s. JStr (slot_id s) = slotId) (SLOTS w) = None"
  shows "handleToolCall env (JStr ''bookSlot'') args w = (Fulfilled slot_not_found, w)"
  using assms by (simp add: handleToolCall_def bookSlot_def)

lemma find_wed_0900:
  "find (\<lambda>s. JStr (slot_id s) = JStr ''wed-0900'') (SLOTS world_initial) = Some wed_0900"
  by (simp add: world_initial_def SLOTS_initial_def wed_0900_def)

lemma find_tue_1030:
  "find (\<lambda>s. JStr (slot_id s) = JStr ''tue-1030'') (SLOTS world_initial) = Some tue_1030"
  by (simp add: world_initial_def SLOTS_initial_def tue_1030_def)

lemma find_nope:
  "find (\<lambda>s. JStr (slot_id s) = JStr ''nope'') (SLOTS world_initial) = None"
  by (simp add: world_initial_def SLOTS_initial_def)

text \<open>
  A question spelt with the Kelvin sign in place of the K of PARKING: a runtime that lower-cases
  the sign to k, as the Unicode tables say, makes getFAQ give the parking answer.
\<close>

lemma getFAQ_kelvin_sign:
  assumes "toLowerCase_str env (''Is PAR'' @ kelvin_sign @ ''ING free?'') = ''is parking free?''"
  shows "handleToolCall env (JStr ''getFAQ'')
           (JObj [(''question'', JStr (''Is PAR'' @ kelvin_sign @ ''ING free?''))]) w =
         (Fulfilled (JObj [(''answer'', JStr (parking FAQ))]), w)"
proof -
  have a: "answer ''is parking free?'' = parking FAQ"
    by (simp add: answer_def)
  have g: "get_prop (JObj [(''question'', JStr (''Is PAR'' @ kelvin_sign @ ''ING free?''))])
             ''question'' = Inr (JStr (''Is PAR'' @ kelvin_sign @ ''ING free?''))"
    by simp
  show ?thesis
    unfolding getFAQ_string [OF g] assms a by (rule refl)
qed

text \<open>
  C10. For every operation name outside getFAQ, getSlots, bookSlot and sendSMS, and for all
  arguments, the router returns the failure result with \<^verbatim>\<open>ok: false\<close> and the error
  \<^verbatim>\<open>"Unknown tool"\<close>, and leaves the process as it was: no message is requested, no slot is
  touched.
\<close>

theorem unknown_tool_result:
  assumes "name \<notin> {JStr ''getFAQ'', JStr ''getSlots'', JStr ''bookSlot'', JStr ''sendSMS''}"
  shows "handleToolCall env name args w =
           (Fulfilled (JObj [(''ok'', JBool False), (''error'', JStr ''Unknown tool'')]), w)"
  using assms by (simp add: handleToolCall_def unknown_tool_def)

text \<open>C10, at the name \<^verbatim>\<open>cancelSlot\<close> with the arguments of a reservation.\<close>

theorem unknown_tool_result_witness:
  "handleToolCall env_down (JStr ''cancelSlot'') reserve_wed world_initial =
     (Fulfilled (JObj [(''ok'', JBool False), (''error'', JStr ''Unknown tool'')]), world_initial)"
  using unknown_tool_result [of "JStr ''cancelSlot''" env_down reserve_wed world_initial]
  by simp

text \<open>
  C8. getSlots returns the whole slot list and reads none of its arguments: any two
  argument values give the same result, which lists every slot of the process, and at
  the start of the process these are the three slots of the source.
\<close>

theorem getSlots_ignores_filters:
  "handleToolCall env (JStr ''getSlots'') args1 w = handleToolCall env (JStr ''getSlots'') args2 w
   \<and> handleToolCall env (JStr ''getSlots'') args1 w =
       (Fulfilled (JObj [(''slots'', JArr (map slot_json (SLOTS w)))]), w)
   \<and> fst (handleToolCall env (JStr ''getSlots'') args1 world_initial) =
       Fulfilled (JObj [(''slots'', JArr
         [JObj [(''id'', JStr ''tue-1030''), (''label'', JStr ''Tue 10:30 AM (Hygienist)'')],
          JObj [(''id'', JStr ''tue-1415''), (''label'', JStr ''Tue 2:15 PM (Hygienist)'')],
          JObj [(''id'', JStr ''wed-0900''), (''label'', JStr ''Wed 9:00 AM (Dr. Lee)'')]])])"
  by (simp add: handleToolCall_def getSlots_def world_initial_def SLOTS_initial_def slot_json_def)

text \<open>
  C6, as stated, fails at its second example: the question "Do you take Cigna?" holds
  none of the keywords (the word insurance is not in it), so getFAQ answers with the
  deflection, which is not the insurance answer.
\<close>

theorem getFAQ_cigna_counterexample:
  "handleToolCall env_up (JStr ''getFAQ'') (JObj [(''question'', JStr ''Do you take Cigna?'')])
       world_initial =
     (Fulfilled (JObj [(''answer'', JStr deflection)]), world_initial)
   \<and> deflection \<noteq> insurance FAQ"
proof -
  have "toLowerCase_str env_up ''Do you take Cigna?'' = ''do you take cigna?''"
    by (simp add: env_up_def ascii_lower_def ascii_lower_char_def)
  moreover have "answer ''do you take cigna?'' = deflection"
    by (simp add: answer_def)
  moreover have "deflection \<noteq> insurance FAQ"
    by (simp add: deflection_def FAQ_def)
  ultimately show ?thesis
    by (simp add: getFAQ_string)
qed

text \<open>
  C6, amended. For every question string, getFAQ answers with the first row of the keyword
  table (hours, address or location, insurance, parking, new patient, in this order) one of
  whose keywords occurs in the question as the runtime lower-cases it, and with the fixed
  deflection when no row matches; two questions with the same lower-case form get the same
  answer. In particular "What are your hours?" gets the hours answer, and both "Do you take
  Cigna?" and "flight schedule" get the deflection, the lower-case forms of these three
  being "what are your hours?", "do you take cigna?" and "flight schedule".
\<close>

theorem getFAQ_keyword_lookup:
  "(get_prop args ''question'' = Inr (JStr question) \<longrightarrow>
      handleToolCall env (JStr ''getFAQ'') args w =
        (Fulfilled (JObj [(''answer'', JStr (lookup_spec env question))]), w))
   \<and> (toLowerCase_str env question = toLowerCase_str env question' \<longrightarrow>
        lookup_spec env question = lookup_spec env question')
   \<and> (toLowerCase_str env ''What are your hours?'' = ''what are your hours?'' \<longrightarrow>
        handleToolCall env (JStr ''getFAQ'') (JObj [(''question'', JStr ''What are your hours?'')]) w =
          (Fulfilled (JObj [(''answer'', JStr (hours FAQ))]), w))
   \<and> (toLowerCase_str env ''Do you take Cigna?'' = ''do you take cigna?'' \<longrightarrow>
        handleToolCall env (JStr ''getFAQ'') (JObj [(''question'', JStr ''Do you take Cigna?'')]) w =
          (Fulfilled (JObj [(''answer'', JStr deflection)]), w))
   \<and> (toLowerCase_str env ''flight schedule'' = ''flight schedule'' \<longrightarrow>
        handleToolCall env (JStr ''getFAQ'') (JObj [(''question'', JStr ''flight schedule'')]) w =
          (Fulfilled (JObj [(''answer'', JStr deflection)]), w))"
proof -
  have a1: "answer ''what are your hours?'' = hours FAQ"
    by (simp add: answer_def)
  have a2: "answer ''do you take cigna?'' = deflection"
    by (simp add: answer_def)
  have a3: "answer ''flight schedule'' = deflection"
    by (simp add: answer_def)
  have general: "get_prop args ''question'' = Inr (JStr question) \<longrightarrow>
      handleToolCall env (JStr ''getFAQ'') args w =
        (Fulfilled (JObj [(''answer'', JStr (lookup_spec env question))]), w)"
    by (simp add: getFAQ_string answer_lookup_spec)
  have insensitive: "toLowerCase_str env question = toLowerCase_str env question' \<longrightarrow>
      lookup_spec env question = lookup_spec env question'"
    by (simp add: lookup_spec_def)
  have e1: "toLowerCase_str env ''What are your hours?'' = ''what are your hours?'' \<longrightarrow>
      handleToolCall env (JStr ''getFAQ'') (JObj [(''question'', JStr ''What are your hours?'')]) w =
        (Fulfilled (JObj [(''answer'', JStr (hours FAQ))]), w)"
    by (simp add: getFAQ_string a1)
  have e2: "toLowerCase_str env ''Do you take Cigna?'' = ''do you take cigna?'' \<longrightarrow>
      handleToolCall env (JStr ''getFAQ'') (JObj [(''question'', JStr ''Do you take Cigna?'')]) w =
        (Fulfilled (JObj [(''answer'', JStr deflection)]), w)"
    by (simp add: getFAQ_string a2)
  have e3: "toLowerCase_str env ''flight schedule'' = ''flight schedule'' \<longrightarrow>
      handleToolCall env (JStr ''getFAQ'') (JObj [(''question'', JStr ''flight schedule'')]) w =
        (Fulfilled (JObj [(''answer'', JStr deflection)]), w)"
    by (simp add: getFAQ_string a3)
  from general insensitive e1 e2 e3 show ?thesis by blast
qed

text \<open>
  C6, amended, at the three questions of the specification and at a question in capitals,
  "WHERE CAN I PARK? IS PARKING FREE?", which gets the parking answer.
\<close>

theorem getFAQ_keyword_lookup_witness:
  "handleToolCall env_up (JStr ''getFAQ'')
       (JObj [(''question'', JStr ''WHERE CAN I PARK? IS PARKING FREE?'')]) world_initial =
     (Fulfilled (JObj [(''answer'', JStr (parking FAQ))]), world_initial)
   \<and> handleToolCall env_up (JStr ''getFAQ'')
       (JObj [(''question'', JStr ''What are your hours?'')]) world_initial =
     (Fulfilled (JObj [(''answer'', JStr (hours FAQ))]), world_initial)
   \<and> handleToolCall env_up (JStr ''getFAQ'')
       (JObj [(''question'', JStr ''flight schedule'')]) world_initial =
     (Fulfilled (JObj [(''answer'', JStr deflection)]), world_initial)"
proof -
  have g: "get_prop (JObj [(''question'', JStr ''WHERE CAN I PARK? IS PARKING FREE?'')])
             ''question'' = Inr (JStr ''WHERE CAN I PARK? IS PARKING FREE?'')"
    by simp
  have l: "toLowerCase_str env_up ''WHERE CAN I PARK? IS PARKING FREE?'' =
           ''where can i park? is parking free?''"
    by (simp add: env_up_def ascii_lower_def ascii_lower_char_def)
  have a: "answer ''where can i park? is parking free?'' = parking FAQ"
    by (simp add: answer_def)
  have p: "lookup_spec env_up ''WHERE CAN I PARK? IS PARKING FREE?'' = parking FAQ"
    using answer_lookup_spec [of env_up "''WHERE CAN I PARK? IS PARKING FREE?''"]
    by (simp only: l a)
  have l1: "toLowerCase_str env_up ''What are your hours?'' = ''what are your hours?''"
    by (simp add: env_up_def ascii_lower_def ascii_lower_char_def)
  have l3: "toLowerCase_str env_up ''flight schedule'' = ''flight schedule''"
    by (simp add: env_up_def ascii_lower_def ascii_lower_char_def)
  from getFAQ_keyword_lookup
         [of "JObj [(''question'', JStr ''WHERE CAN I PARK? IS PARKING FREE?'')]"
             "''WHERE CAN I PARK? IS PARKING FREE?''" env_up world_initial]
       g p l1 l3
  show ?thesis by simp
qed

text \<open>
  C4, as stated, fails: with a known slot and a phone number, a Twilio client that fails
  the request makes the router call fail with the same error; no success result is
  returned.
\<close>

theorem reserve_sms_failure_counterexample:
  "find (\<lambda>s. JStr (slot_id s) = JStr ''tue-1030'') (SLOTS world_initial) = Some tue_1030
   \<and> fst (handleToolCall env_down (JStr ''bookSlot'') reserve_tue world_initial) =
       Rejected (TwilioError ''unreachable'')
   \<and> fst (handleToolCall env_down (JStr ''bookSlot'') reserve_tue world_initial) \<noteq>
       Fulfilled (booked tue_1030)"
proof -
  have g: "get_prop reserve_tue ''slotId'' = Inr (JStr ''tue-1030'')"
    by (simp add: reserve_tue_def)
  have f: "find (\<lambda>s. JStr (slot_id s) = JStr ''tue-1030'') (SLOTS world_initial) = Some tue_1030"
    by (rule find_tue_1030)
  have ph: "read_prop reserve_tue ''phone'' = JStr ''+15550001111''"
    by (simp add: read_prop_def reserve_tue_def)
  have "fst (handleToolCall env_down (JStr ''bookSlot'') reserve_tue world_initial) =
          Rejected (TwilioError ''unreachable'')"
    unfolding bookSlot_known [OF g f] by (simp add: ph env_down_def)
  with f show ?thesis by simp
qed

text \<open>
  C4, amended. For every call of bookSlot with a known slotId, the outcome follows the
  notification: without a phone number no message is requested and the router returns
  the success result holding the slot and its label; with a phone number it returns that
  result when the message is sent, and when the message request fails the router call
  fails with the same error.
\<close>

theorem reserve_follows_notification:
  assumes "get_prop args ''slotId'' = Inr slotId"
    and "find (\<lambda>s. JStr (slot_id s) = slotId) (SLOTS w) = Some found"
  shows "(\<not> truthy (read_prop args ''phone'') \<longrightarrow>
            handleToolCall env (JStr ''bookSlot'') args w =
              (Fulfilled (JObj [(''ok'', JBool True),
                 (''booked'', JObj [(''id'', JStr (slot_id found)),
                                    (''label'', JStr (label found))])]), w))
       \<and> (truthy (read_prop args ''phone'') \<and>
            twilio env (sms_calls w) (read_prop args ''phone'')
              (JStr (''Booked: '' @ label found @ ''. Address: '' @ address FAQ)) = Fulfilled sid
          \<longrightarrow> fst (handleToolCall env (JStr ''bookSlot'') args w) =
              Fulfilled (JObj [(''ok'', JBool True),
                 (''booked'', JObj [(''id'', JStr (slot_id found)),
                                    (''label'', JStr (label found))])]))
       \<and> (truthy (read_prop args ''phone'') \<and>
            twilio env (sms_calls w) (read_prop args ''phone'')
              (JStr (''Booked: '' @ label found @ ''. Address: '' @ address FAQ)) = Rejected e
          \<longrightarrow> fst (handleToolCall env (JStr ''bookSlot'') args w) = Rejected e)"
proof -
  have p: "get_prop args ''phone'' = Inr (read_prop args ''phone'')"
    by (rule get_prop_Inr_any [OF assms(1)])
  have quiet: "\<not> truthy (read_prop args ''phone'') \<longrightarrow>
      handleToolCall env (JStr ''bookSlot'') args w = (Fulfilled (booked found), w)"
    using assms p by (simp add: handleToolCall_def bookSlot_def)
  show ?thesis
    using quiet bookSlot_known [OF assms, of env]
    by (simp add: booked_def slot_json_def)
qed

text \<open>
  C4, amended, at the slot \<^verbatim>\<open>tue-1030\<close>: booked when the message is sent, booked when no
  phone number is given and Twilio is down, failed when a phone number is given and
  Twilio is down.
\<close>

theorem reserve_follows_notification_witness:
  "fst (handleToolCall env_up (JStr ''bookSlot'') reserve_tue world_initial) =
     Fulfilled (JObj [(''ok'', JBool True),
       (''booked'', JObj [(''id'', JStr ''tue-1030''),
                          (''label'', JStr ''Tue 10:30 AM (Hygienist)'')])])
   \<and> handleToolCall env_down (JStr ''bookSlot'') (JObj [(''slotId'', JStr ''tue-1030'')])
         world_initial =
       (Fulfilled (JObj [(''ok'', JBool True),
          (''booked'', JObj [(''id'', JStr ''tue-1030''),
                             (''label'', JStr ''Tue 10:30 AM (Hygienist)'')])]), world_initial)
   \<and> fst (handleToolCall env_down (JStr ''bookSlot'') reserve_tue world_initial) =
       Rejected (TwilioError ''unreachable'')"
proof -
  have g: "get_prop reserve_tue ''slotId'' = Inr (JStr ''tue-1030'')"
    by (simp add: reserve_tue_def)
  have g': "get_prop (JObj [(''slotId'', JStr ''tue-1030'')]) ''slotId'' = Inr (JStr ''tue-1030'')"
    by simp
  have f: "find (\<lambda>s. JStr (slot_id s) = JStr ''tue-1030'') (SLOTS world_initial) = Some tue_1030"
    by (rule find_tue_1030)
  have ph: "read_prop reserve_tue ''phone'' = JStr ''+15550001111''"
    by (simp add: read_prop_def reserve_tue_def)
  have ph': "read_prop (JObj [(''slotId'', JStr ''tue-1030'')]) ''phone'' = JUndefined"
    by (simp add: read_prop_def)
  from reserve_follows_notification [OF g f, of env_up "JStr ''SM01''"]
  have 1: "fst (handleToolCall env_up (JStr ''bookSlot'') reserve_tue world_initial) =
     Fulfilled (JObj [(''ok'', JBool True),
       (''booked'', JObj [(''id'', JStr ''tue-1030''),
                          (''label'', JStr ''Tue 10:30 AM (Hygienist)'')])])"
    by (simp add: ph env_up_def tue_1030_def)
  from reserve_follows_notification [OF g' f, of env_down]
  have 2: "handleToolCall env_down (JStr ''bookSlot'') (JObj [(''slotId'', JStr ''tue-1030'')])
         world_initial =
       (Fulfilled (JObj [(''ok'', JBool True),
          (''booked'', JObj [(''id'', JStr ''tue-1030''),
                             (''label'', JStr ''Tue 10:30 AM (Hygienist)'')])]), world_initial)"
    by (simp add: ph' tue_1030_def)
  from reserve_follows_notification [OF g f, of env_down _ "TwilioError ''unreachable''"]
  have 3: "fst (handleToolCall env_down (JStr ''bookSlot'') reserve_tue world_initial) =
       Rejected (TwilioError ''unreachable'')"
    by (simp add: ph env_down_def)
  from 1 2 3 show ?thesis by simp
qed

text \<open>
  C5, as stated, fails at its own first example: reserve("wed-0900", "Jane Doe",
  "+15551234567") names a known slot, yet with a Twilio client that fails the request
  the call fails and returns no success result.
\<close>

theorem reserve_wed_counterexample:
  "get_prop reserve_wed ''slotId'' = Inr (JStr ''wed-0900'')
   \<and> find (\<lambda>s. JStr (slot_id s) = JStr ''wed-0900'') (SLOTS world_initial) = Some wed_0900
   \<and> handleToolCall env_down (JStr ''bookSlot'') reserve_wed world_initial =
       (Rejected (TwilioError ''unreachable''),
        world_initial\<lparr>sms_calls :=
          [(JStr ''+15551234567'',
            JStr (''Booked: Wed 9:00 AM (Dr. Lee). Address: '' @ address FAQ))]\<rparr>)"
  by (simp add: reserve_wed_def world_initial_def SLOTS_initial_def wed_0900_def
      handleToolCall_def bookSlot_def sendSMS_def env_down_def)

text \<open>
  C5, amended. bookSlot with a slotId that is not in the slot list returns the failure
  result with the error \<^verbatim>\<open>"Slot not found"\<close>; with a known slotId it returns the success
  result whose label is that slot's label whenever the notification, which is requested
  when a phone number is given, is sent. In particular reserve("wed-0900", "Jane Doe",
  "+15551234567") succeeds with the label "Wed 9:00 AM (Dr. Lee)" when its message is
  sent, and reserve("nope", "Jane Doe", "+1555...") fails with not-found.
\<close>

theorem reserve_result:
  assumes "get_prop args ''slotId'' = Inr slotId"
  shows "(find (\<lambda>s. JStr (slot_id s) = slotId) (SLOTS w) = None \<longrightarrow>
            handleToolCall env (JStr ''bookSlot'') args w =
              (Fulfilled (JObj [(''ok'', JBool False), (''error'', JStr ''Slot not found'')]), w))
       \<and> (find (\<lambda>s. JStr (slot_id s) = slotId) (SLOTS w) = Some found \<and>
            (truthy (read_prop args ''phone'') \<longrightarrow>
               twilio env (sms_calls w) (read_prop args ''phone'')
                 (JStr (''Booked: '' @ label found @ ''. Address: '' @ address FAQ)) =
               Fulfilled sid)
          \<longrightarrow> (\<exists>result. fst (handleToolCall env (JStr ''bookSlot'') args w) = Fulfilled result
                 \<and> get_prop result ''ok'' = Inr (JBool True)
                 \<and> get_prop (read_prop result ''booked'') ''label'' = Inr (JStr (label found))))"
proof -
  have none: "find (\<lambda>s. JStr (slot_id s) = slotId) (SLOTS w) = None \<longrightarrow>
      handleToolCall env (JStr ''bookSlot'') args w =
        (Fulfilled (JObj [(''ok'', JBool False), (''error'', JStr ''Slot not found'')]), w)"
    using bookSlot_unknown [OF assms, of w env] by (simp add: slot_not_found_def)
  have some: "find (\<lambda>s. JStr (slot_id s) = slotId) (SLOTS w) = Some found \<and>
      (truthy (read_prop args ''phone'') \<longrightarrow>
         twilio env (sms_calls w) (read_prop args ''phone'')
           (JStr (''Booked: '' @ label found @ ''. Address: '' @ address FAQ)) = Fulfilled sid)
      \<longrightarrow> fst (handleToolCall env (JStr ''bookSlot'') args w) = Fulfilled (booked found)"
    using bookSlot_known [OF assms, of w found env] by simp
  have lab: "get_prop (booked found) ''ok'' = Inr (JBool True)
      \<and> get_prop (read_prop (booked found) ''booked'') ''label'' = Inr (JStr (label found))"
    by (simp add: booked_def slot_json_def read_prop_def)
  from none some lab show ?thesis by metis
qed

text \<open>C5, amended, at the two examples of the specification, the message being sent.\<close>

theorem reserve_result_witness:
  "(\<exists>result. fst (handleToolCall env_up (JStr ''bookSlot'') reserve_wed world_initial) =
        Fulfilled result
      \<and> get_prop result ''ok'' = Inr (JBool True)
      \<and> get_prop (read_prop result ''booked'') ''label'' = Inr (JStr ''Wed 9:00 AM (Dr. Lee)''))
   \<and> handleToolCall env_up (JStr ''bookSlot'') reserve_nope world_initial =
       (Fulfilled (JObj [(''ok'', JBool False), (''error'', JStr ''Slot not found'')]),
        world_initial)"
proof -
  have g: "get_prop reserve_wed ''slotId'' = Inr (JStr ''wed-0900'')"
    by (simp add: reserve_wed_def)
  have f: "find (\<lambda>s. JStr (slot_id s) = JStr ''wed-0900'') (SLOTS world_initial) = Some wed_0900"
    by (rule find_wed_0900)
  have t: "twilio env_up (sms_calls world_initial) (read_prop reserve_wed ''phone'')
             (JStr (''Booked: '' @ label wed_0900 @ ''. Address: '' @ address FAQ)) =
           Fulfilled (JStr ''SM01'')"
    by (simp add: env_up_def)
  have g': "get_prop reserve_nope ''slotId'' = Inr (JStr ''nope'')"
    by (simp add: reserve_nope_def)
  have f': "find (\<lambda>s. JStr (slot_id s) = JStr ''nope'') (SLOTS world_initial) = None"
    by (rule find_nope)
  from reserve_result [OF g, of world_initial env_up wed_0900 "JStr ''SM01''"] f t
  have 1: "\<exists>result. fst (handleToolCall env_up (JStr ''bookSlot'') reserve_wed world_initial) =
        Fulfilled result
      \<and> get_prop result ''ok'' = Inr (JBool True)
      \<and> get_prop (read_prop result ''booked'') ''label'' = Inr (JStr ''Wed 9:00 AM (Dr. Lee)'')"
    by (simp add: wed_0900_def)
  from reserve_result [OF g', of world_initial env_up] f'
  have 2: "handleToolCall env_up (JStr ''bookSlot'') reserve_nope world_initial =
       (Fulfilled (JObj [(''ok'', JBool False), (''error'', JStr ''Slot not found'')]),
        world_initial)"
    by simp
  from 1 2 show ?thesis by simp
qed

text \<open>
  C7, as stated, fails in its last part: with a Twilio client that sends the first message
  and fails afterwards, the first reservation of \<^verbatim>\<open>wed-0900\<close> succeeds and the same
  reservation made again does not.
\<close>

theorem repeated_reserve_counterexample:
  "fst (handleToolCall env_flaky (JStr ''bookSlot'') reserve_wed world_initial) =
     Fulfilled (booked wed_0900)
   \<and> fst (handleToolCall env_flaky (JStr ''bookSlot'') reserve_wed
            (run_calls env_flaky [(JStr ''bookSlot'', reserve_wed)] world_initial)) =
       Rejected (TwilioError ''unreachable'')"
  by (simp add: reserve_wed_def world_initial_def SLOTS_initial_def wed_0900_def
      handleToolCall_def bookSlot_def sendSMS_def env_flaky_def)

text \<open>
  C7, amended. bookSlot never removes or flags a slot: after any sequence of bookSlot
  calls the slot list is the one before them and getSlots returns all of it; and a
  reservation of an identifier that was known before them is never answered with
  not-found: it succeeds whenever it requests no notification or its notification is
  sent.
\<close>

theorem reserve_never_changes_slots:
  "SLOTS (run_calls env (map (Pair (JStr ''bookSlot'')) argss) w) = SLOTS w
   \<and> fst (handleToolCall env (JStr ''getSlots'') a
            (run_calls env (map (Pair (JStr ''bookSlot'')) argss) w)) =
       Fulfilled (JObj [(''slots'', JArr (map slot_json (SLOTS w)))])
   \<and> (get_prop args ''slotId'' = Inr slotId \<and>
       find (\<lambda>s. JStr (slot_id s) = slotId) (SLOTS w) = Some found \<longrightarrow>
         fst (handleToolCall env (JStr ''bookSlot'') args
                (run_calls env (map (Pair (JStr ''bookSlot'')) argss) w)) \<noteq>
           Fulfilled slot_not_found
         \<and> ((truthy (read_prop args ''phone'') \<longrightarrow>
                twilio env (sms_calls (run_calls env (map (Pair (JStr ''bookSlot'')) argss) w))
                  (read_prop args ''phone'')
                  (JStr (''Booked: '' @ label found @ ''. Address: '' @ address FAQ)) =
                Fulfilled sid)
             \<longrightarrow> fst (handleToolCall env (JStr ''bookSlot'') args
                        (run_calls env (map (Pair (JStr ''bookSlot'')) argss) w)) =
                   Fulfilled (booked found)))"
proof -
  define w' where "w' = run_calls env (map (Pair (JStr ''bookSlot'')) argss) w"
  have same: "SLOTS w' = SLOTS w"
    by (simp add: w'_def run_calls_SLOTS)
  have listed: "fst (handleToolCall env (JStr ''getSlots'') a w') =
      Fulfilled (JObj [(''slots'', JArr (map slot_json (SLOTS w)))])"
    by (simp add: handleToolCall_def getSlots_def same)
  have known: "fst (handleToolCall env (JStr ''bookSlot'') args w') \<noteq> Fulfilled slot_not_found
      \<and> ((truthy (read_prop args ''phone'') \<longrightarrow>
             twilio env (sms_calls w') (read_prop args ''phone'')
               (JStr (''Booked: '' @ label found @ ''. Address: '' @ address FAQ)) =
             Fulfilled sid)
          \<longrightarrow> fst (handleToolCall env (JStr ''bookSlot'') args w') = Fulfilled (booked found))"
    if g: "get_prop args ''slotId'' = Inr slotId"
      and f: "find (\<lambda>s. JStr (slot_id s) = slotId) (SLOTS w) = Some found"
  proof -
    from f same have f': "find (\<lambda>s. JStr (slot_id s) = slotId) (SLOTS w') = Some found"
      by simp
    show ?thesis
      unfolding bookSlot_known [OF g f', of env]
      by (simp add: booked_def slot_not_found_def split: promise.split)
  qed
  from same listed known show ?thesis
    unfolding w'_def by blast
qed

text \<open>
  C7, amended, at two reservations of \<^verbatim>\<open>wed-0900\<close> followed by a third, every message
  being sent: the third succeeds, and the slot list is still the initial one.
\<close>

theorem reserve_never_changes_slots_witness:
  "SLOTS (run_calls env_up (map (Pair (JStr ''bookSlot'')) [reserve_wed, reserve_wed])
            world_initial) = SLOTS_initial
   \<and> fst (handleToolCall env_up (JStr ''bookSlot'') reserve_wed
            (run_calls env_up (map (Pair (JStr ''bookSlot'')) [reserve_wed, reserve_wed])
               world_initial)) =
       Fulfilled (booked wed_0900)"
proof -
  have g: "get_prop reserve_wed ''slotId'' = Inr (JStr ''wed-0900'')"
    by (simp add: reserve_wed_def)
  have f: "find (\<lambda>s. JStr (slot_id s) = JStr ''wed-0900'') (SLOTS world_initial) = Some wed_0900"
    by (rule find_wed_0900)
  have t: "twilio env_up earlier to body = Fulfilled (JStr ''SM01'')" for earlier to body
    by (simp add: env_up_def)
  have i: "SLOTS world_initial = SLOTS_initial"
    by (simp add: world_initial_def)
  from reserve_never_changes_slots
         [of env_up "[reserve_wed, reserve_wed]" world_initial JNull reserve_wed
             "JStr ''wed-0900''" wed_0900 "JStr ''SM01''"]
       g f t i
  show ?thesis by simp
qed

section \<open>Properties of the bridge\<close>

lemma rt_function_call:
  assumes "get_prop evt ''type'' = Inr (JStr ''response.function_call'')"
  shows "rt_on_message env (Some evt) (s, w) =
     function_call env evt
       (console_log [S ''RT EVT:'', J (JStr ''response.function_call''),
                     S (take 400 (stringify env evt))] s, w)"
  using assms by (simp add: rt_on_message_def)

lemma ws_try_throw_keeps:
  "fst (ws_on_message_try frame s) \<noteq> None \<longrightarrow> snd (ws_on_message_try frame s) = s"
  by (simp add: ws_on_message_try_def Let_def rt_send_def console_log_def
      split: option.split sum.split)

lemma ws_on_message_sockets:
  "rt_readyState (snd (ws_on_message_try frame s)) = rt_readyState s
   \<and> ws_readyState (snd (ws_on_message_try frame s)) = ws_readyState s
   \<and> ws_sent (snd (ws_on_message_try frame s)) = ws_sent s"
  by (simp add: ws_on_message_try_def Let_def rt_send_def console_log_def
      split: option.split sum.split)

text \<open>
  The model-leg handler reads \<^verbatim>\<open>evt.type\<close> after its \<^verbatim>\<open>try\<close> around \<^verbatim>\<open>JSON.parse\<close> has
  ended: on the frame \<^verbatim>\<open>null\<close>, which parses, the read is a TypeError that nothing
  catches.
\<close>

lemma rt_on_message_null: "rt_on_message env (Some JNull) (s, w) = (Rejected TypeError, s, w)"
  by (simp add: rt_on_message_def)



text \<open>
  C3. When the tool handler fails for a function-call event, the handler of the model leg
  catches the failure and writes it to the console; it ends normally, sends nothing on
  the model leg (so no function-call output) and nothing to the caller, and leaves both
  sockets in the state they were in.
\<close>

theorem tool_failure_caught:
  assumes "get_prop evt ''type'' = Inr (JStr ''response.function_call'')"
    and "handleToolCall env (read_prop evt ''name'')
           (if truthy (read_prop evt ''arguments'') then read_prop evt ''arguments'' else JObj [])
           w = (Rejected e, w')"
  shows "\<exists>s'. rt_on_message env (Some evt) (s, w) = (Fulfilled (), s', w')
     \<and> rt_sent s' = rt_sent s \<and> ws_sent s' = ws_sent s
     \<and> rt_readyState s' = rt_readyState s \<and> ws_readyState s' = ws_readyState s
     \<and> console s' = console s @
         [Log [S ''RT EVT:'', J (JStr ''response.function_call''),
               S (take 400 (stringify env evt))],
          Err [S ''tool handler error:'', E e]]"
  using assms
  by (simp add: rt_function_call function_call_def Let_def console_error_def console_log_def)

text \<open>
  C3, at a bookSlot call with a phone number while Twilio is down: the handler ends
  normally, the error is on the console, nothing has been sent.
\<close>

theorem tool_failure_caught_witness:
  "\<exists>s' w'. rt_on_message env_down (Some call_bookSlot) (session_active, world_initial) =
              (Fulfilled (), s', w')
     \<and> rt_sent s' = [] \<and> ws_sent s' = []
     \<and> rt_readyState s' = 1 \<and> ws_readyState s' = 1
     \<and> console s' =
         [Log [S ''RT EVT:'', J (JStr ''response.function_call''), S ''{}''],
          Err [S ''tool handler error:'', E (TwilioError ''unreachable'')]]"
proof -
  have t: "get_prop call_bookSlot ''type'' = Inr (JStr ''response.function_call'')"
    by (simp add: call_bookSlot_def)
  have n: "read_prop call_bookSlot ''name'' = JStr ''bookSlot''"
    by (simp add: call_bookSlot_def read_prop_def)
  have r: "read_prop call_bookSlot ''arguments'' = reserve_tue"
    by (simp add: call_bookSlot_def read_prop_def)
  have tr: "truthy reserve_tue"
    by (simp add: reserve_tue_def)
  have b: "handleToolCall env_down (JStr ''bookSlot'') reserve_tue world_initial =
           (Rejected (TwilioError ''unreachable''),
            world_initial\<lparr>sms_calls :=
              [(JStr ''+15550001111'',
                JStr (''Booked: Tue 10:30 AM (Hygienist). Address: '' @ address FAQ))]\<rparr>)"
    by (simp add: reserve_tue_def world_initial_def SLOTS_initial_def
        handleToolCall_def bookSlot_def sendSMS_def env_down_def)
  have h: "handleToolCall env_down (read_prop call_bookSlot ''name'')
             (if truthy (read_prop call_bookSlot ''arguments'')
              then read_prop call_bookSlot ''arguments'' else JObj [])
             world_initial =
           (Rejected (TwilioError ''unreachable''),
            world_initial\<lparr>sms_calls :=
              [(JStr ''+15550001111'',
                JStr (''Booked: Tue 10:30 AM (Hygienist). Address: '' @ address FAQ))]\<rparr>)"
    by (simp only: n r tr if_True b)
  from tool_failure_caught [OF t h, of session_active] show ?thesis
    by (simp add: env_down_def session_active_def) blast
qed

text \<open>
  C2. For every \<^verbatim>\<open>stop\<close> event received from the caller while the session is ACTIVE,
  exactly two frames are sent on the model leg, the commit instruction
  (\<^verbatim>\<open>input_audio_buffer.commit\<close>) and then the response request (\<^verbatim>\<open>response.create\<close>);
  the handler ends normally, nothing is sent to the caller, and the session stays ACTIVE,
  so that the next \<^verbatim>\<open>stop\<close> gets its own pair.
\<close>

theorem stop_commit_then_response:
  assumes "ACTIVE s" and "get_prop msg ''event'' = Inr (JStr ''stop'')"
  shows "\<exists>s'. ws_on_message (Some msg) s = (None, s')
     \<and> rt_sent s' = rt_sent s @
         [JObj [(''type'', JStr ''input_audio_buffer.commit'')],
          JObj [(''type'', JStr ''response.create'')]]
     \<and> ws_sent s' = ws_sent s \<and> ACTIVE s'"
  using assms
  by (simp add: ws_on_message_def ws_on_message_try_def Let_def ACTIVE_def rt_send_def
      console_log_def commit_instruction_def response_create_def)

text \<open>C2, at the frame \<^verbatim>\<open>{"event": "stop"}\<close> in an open session with nothing sent yet.\<close>

theorem stop_commit_then_response_witness:
  "ACTIVE session_active
   \<and> (\<exists>s'. ws_on_message (Some (JObj [(''event'', JStr ''stop'')])) session_active = (None, s')
        \<and> rt_sent s' =
            [JObj [(''type'', JStr ''input_audio_buffer.commit'')],
             JObj [(''type'', JStr ''response.create'')]]
        \<and> ws_sent s' = [] \<and> ACTIVE s')"
proof -
  have a: "ACTIVE session_active"
    by (simp add: ACTIVE_def session_active_def)
  have g: "get_prop (JObj [(''event'', JStr ''stop'')]) ''event'' = Inr (JStr ''stop'')"
    by simp
  from stop_commit_then_response [OF a g] a show ?thesis
    by (simp add: session_active_def)
qed

text \<open>
  C9, as stated, fails for frames that parse: a \<^verbatim>\<open>media\<close> frame of the caller whose media
  object holds no payload is not discarded in an open session, an append instruction
  without audio is sent on the model leg.
\<close>

theorem media_without_payload_counterexample:
  "ws_on_message (Some (JObj [(''event'', JStr ''media''), (''media'', JObj [])])) session_active =
     (None, session_active\<lparr>rt_sent :=
        [JObj [(''type'', JStr ''input_audio_buffer.append''), (''audio'', JUndefined)]]\<rparr>)
   \<and> rt_sent session_active = []"
  by (simp add: ws_on_message_def ws_on_message_try_def read_prop_def rt_send_def
      append_instruction_def session_active_def)

text \<open>
  C9, amended. An inbound frame that cannot be parsed is discarded on either leg: the
  handler ends normally and neither the session nor the process changes, so nothing is
  sent on either leg and no socket changes state. A frame that parses is not validated.
  On the caller leg no frame makes the handler throw, send to the caller or change the
  state of a socket; a frame whose event is neither \<^verbatim>\<open>media\<close> nor \<^verbatim>\<open>stop\<close> (a frame that
  is no object among them) sends nothing on the model leg, nor does any frame while the
  model socket is not open; a \<^verbatim>\<open>media\<close> frame without its media object is discarded; a
  \<^verbatim>\<open>media\<close> frame whose media object lacks the payload is relayed, as one append
  instruction with the audio absent. On the model leg, in an ACTIVE session, a frame
  that is not \<^verbatim>\<open>null\<close> and whose type is neither \<^verbatim>\<open>audio.delta\<close> nor
  \<^verbatim>\<open>response.function_call\<close> sends nothing on either leg and ends the handler normally;
  an \<^verbatim>\<open>audio.delta\<close> frame is relayed to the caller as one media frame, its payload absent
  when the audio is; a \<^verbatim>\<open>response.function_call\<close> frame is dispatched whatever its
  fields: the handler does not throw, sends nothing to the caller and at most the one
  output with the call_id of the frame on the model leg.
\<close>

theorem inbound_frame_handling:
  "rt_on_message env None (s, w) = (Fulfilled (), s, w)
   \<and> ws_on_message None s = (None, s)
   \<and> fst (ws_on_message frame s) = None
   \<and> ws_sent (snd (ws_on_message frame s)) = ws_sent s
   \<and> rt_readyState (snd (ws_on_message frame s)) = rt_readyState s
   \<and> ws_readyState (snd (ws_on_message frame s)) = ws_readyState s
   \<and> (get_prop msg ''event'' \<noteq> Inr (JStr ''media'') \<and>
       get_prop msg ''event'' \<noteq> Inr (JStr ''stop'') \<longrightarrow>
         rt_sent (snd (ws_on_message (Some msg) s)) = rt_sent s)
   \<and> (rt_readyState s \<noteq> 1 \<longrightarrow> rt_sent (snd (ws_on_message frame s)) = rt_sent s)
   \<and> (get_prop msg ''event'' = Inr (JStr ''media'') \<and>
       get_prop (read_prop msg ''media'') ''payload'' = Inl e \<longrightarrow>
         ws_on_message (Some msg) s = (None, s))
   \<and> (rt_readyState s = 1 \<and> get_prop msg ''event'' = Inr (JStr ''media'') \<and>
       get_prop (read_prop msg ''media'') ''payload'' = Inr payload \<longrightarrow>
         ws_on_message (Some msg) s =
           (None, s\<lparr>rt_sent := rt_sent s @
              [JObj [(''type'', JStr ''input_audio_buffer.append''), (''audio'', payload)]]\<rparr>))
   \<and> (get_prop evt ''type'' = Inr ty \<and> ty \<noteq> JStr ''audio.delta'' \<and>
       ty \<noteq> JStr ''response.function_call'' \<longrightarrow>
         (\<exists>s'. rt_on_message env (Some evt) (s, w) = (Fulfilled (), s', w)
            \<and> rt_sent s' = rt_sent s \<and> ws_sent s' = ws_sent s
            \<and> rt_readyState s' = rt_readyState s \<and> ws_readyState s' = ws_readyState s))
   \<and> (ACTIVE s \<and> get_prop evt ''type'' = Inr (JStr ''audio.delta'') \<longrightarrow>
         rt_on_message env (Some evt) (s, w) =
           (Fulfilled (), s\<lparr>ws_sent := ws_sent s @
              [JObj [(''event'', JStr ''media''),
                     (''media'', JObj [(''payload'', read_prop evt ''audio'')])]]\<rparr>, w))
   \<and> (ACTIVE s \<and> get_prop evt ''type'' = Inr (JStr ''response.function_call'') \<longrightarrow>
         (\<exists>p s' w'. rt_on_message env (Some evt) (s, w) = (p, s', w')
            \<and> (p = Fulfilled () \<or> p = Pending)
            \<and> ws_sent s' = ws_sent s
            \<and> rt_readyState s' = rt_readyState s \<and> ws_readyState s' = ws_readyState s
            \<and> (rt_sent s' = rt_sent s \<or>
                (\<exists>result. rt_sent s' = rt_sent s @
                   [JObj [(''type'', JStr ''response.function_call_output''),
                          (''call_id'', read_prop evt ''call_id''),
                          (''output'', JStr (stringify env result))]]))))"
proof -
  have 1: "rt_on_message env None (s, w) = (Fulfilled (), s, w)"
    by (simp add: rt_on_message_def)
  have 2: "ws_on_message None s = (None, s)"
    by (simp add: ws_on_message_def ws_on_message_try_def)
  have 3: "fst (ws_on_message frame s) = None"
    by (simp add: ws_on_message_def)
  have 4: "ws_sent (snd (ws_on_message frame s)) = ws_sent s
      \<and> rt_readyState (snd (ws_on_message frame s)) = rt_readyState s
      \<and> ws_readyState (snd (ws_on_message frame s)) = ws_readyState s"
    using ws_on_message_sockets [of frame s] by (simp add: ws_on_message_def)
  have 5: "get_prop msg ''event'' \<noteq> Inr (JStr ''media'') \<and>
      get_prop msg ''event'' \<noteq> Inr (JStr ''stop'') \<longrightarrow>
        rt_sent (snd (ws_on_message (Some msg) s)) = rt_sent s"
    by (simp add: ws_on_message_def ws_on_message_try_def console_log_def split: sum.split)
  have 6: "rt_readyState s \<noteq> 1 \<longrightarrow> rt_sent (snd (ws_on_message frame s)) = rt_sent s"
    by (simp add: ws_on_message_def ws_on_message_try_def console_log_def Let_def
        split: option.split sum.split)
  have 7: "get_prop msg ''event'' = Inr (JStr ''media'') \<and>
      get_prop (read_prop msg ''media'') ''payload'' = Inl e \<longrightarrow>
        ws_on_message (Some msg) s = (None, s)"
    by (simp add: ws_on_message_def ws_on_message_try_def)
  have 8: "rt_readyState s = 1 \<and> get_prop msg ''event'' = Inr (JStr ''media'') \<and>
      get_prop (read_prop msg ''media'') ''payload'' = Inr payload \<longrightarrow>
        ws_on_message (Some msg) s =
          (None, s\<lparr>rt_sent := rt_sent s @
             [JObj [(''type'', JStr ''input_audio_buffer.append''), (''audio'', payload)]]\<rparr>)"
    by (simp add: ws_on_message_def ws_on_message_try_def rt_send_def append_instruction_def)
  have 9: "get_prop evt ''type'' = Inr ty \<and> ty \<noteq> JStr ''audio.delta'' \<and>
      ty \<noteq> JStr ''response.function_call'' \<longrightarrow>
        (\<exists>s'. rt_on_message env (Some evt) (s, w) = (Fulfilled (), s', w)
           \<and> rt_sent s' = rt_sent s \<and> ws_sent s' = ws_sent s
           \<and> rt_readyState s' = rt_readyState s \<and> ws_readyState s' = ws_readyState s)"
    by (simp add: rt_on_message_def Let_def console_log_def console_error_def)
  have 10: "ACTIVE s \<and> get_prop evt ''type'' = Inr (JStr ''audio.delta'') \<longrightarrow>
      rt_on_message env (Some evt) (s, w) =
        (Fulfilled (), s\<lparr>ws_sent := ws_sent s @
           [JObj [(''event'', JStr ''media''),
                  (''media'', JObj [(''payload'', read_prop evt ''audio'')])]]\<rparr>, w)"
    by (simp add: rt_on_message_def ACTIVE_def ws_send_def)
  have 11: "ACTIVE s \<and> get_prop evt ''type'' = Inr (JStr ''response.function_call'') \<longrightarrow>
      (\<exists>p s' w'. rt_on_message env (Some evt) (s, w) = (p, s', w')
         \<and> (p = Fulfilled () \<or> p = Pending)
         \<and> ws_sent s' = ws_sent s
         \<and> rt_readyState s' = rt_readyState s \<and> ws_readyState s' = ws_readyState s
         \<and> (rt_sent s' = rt_sent s \<or>
             (\<exists>result. rt_sent s' = rt_sent s @
                [JObj [(''type'', JStr ''response.function_call_output''),
                       (''call_id'', read_prop evt ''call_id''),
                       (''output'', JStr (stringify env result))]])))"
  proof (intro impI, elim conjE)
    assume a: "ACTIVE s" and t: "get_prop evt ''type'' = Inr (JStr ''response.function_call'')"
    obtain p w' where h: "handleToolCall env (read_prop evt ''name'')
        (if truthy (read_prop evt ''arguments'') then read_prop evt ''arguments'' else JObj [])
        w = (p, w')"
      by (cases "handleToolCall env (read_prop evt ''name'')
        (if truthy (read_prop evt ''arguments'') then read_prop evt ''arguments'' else JObj [])
        w") simp
    show "\<exists>p s' w'. rt_on_message env (Some evt) (s, w) = (p, s', w')
         \<and> (p = Fulfilled () \<or> p = Pending)
         \<and> ws_sent s' = ws_sent s
         \<and> rt_readyState s' = rt_readyState s \<and> ws_readyState s' = ws_readyState s
         \<and> (rt_sent s' = rt_sent s \<or>
             (\<exists>result. rt_sent s' = rt_sent s @
                [JObj [(''type'', JStr ''response.function_call_output''),
                       (''call_id'', read_prop evt ''call_id''),
                       (''output'', JStr (stringify env result))]]))"
      using a h
      by (cases p)
         (auto simp add: rt_function_call [OF t] function_call_def Let_def ACTIVE_def
            rt_send_def console_log_def console_error_def function_call_output_def)
  qed
  from 1 2 3 4 5 6 7 8 9 10 11 show ?thesis by blast
qed

text \<open>
  C9, amended, in an open session: a \<^verbatim>\<open>media\<close> frame of the caller without a media object
  is discarded; a frame of the model of an unknown type sends nothing; an \<^verbatim>\<open>audio.delta\<close>
  frame of the model without audio is relayed to the caller with the payload absent.
\<close>

theorem inbound_frame_handling_witness:
  "ws_on_message (Some (JObj [(''event'', JStr ''media'')])) session_active =
     (None, session_active)
   \<and> (\<exists>s'. rt_on_message env_up (Some (JObj [(''type'', JStr ''session.created'')]))
              (session_active, world_initial) = (Fulfilled (), s', world_initial)
        \<and> rt_sent s' = [] \<and> ws_sent s' = []
        \<and> rt_readyState s' = 1 \<and> ws_readyState s' = 1)
   \<and> rt_on_message env_up (Some (JObj [(''type'', JStr ''audio.delta'')]))
         (session_active, world_initial) =
       (Fulfilled (),
        session_active\<lparr>ws_sent :=
          [JObj [(''event'', JStr ''media''), (''media'', JObj [(''payload'', JUndefined)])]]\<rparr>,
        world_initial)"
proof -
  have a: "ACTIVE session_active"
    by (simp add: ACTIVE_def session_active_def)
  have m: "get_prop (JObj [(''event'', JStr ''media'')]) ''event'' = Inr (JStr ''media'')"
    by simp
  have p: "get_prop (read_prop (JObj [(''event'', JStr ''media'')]) ''media'') ''payload'' =
           Inl TypeError"
    by (simp add: read_prop_def)
  have t: "get_prop (JObj [(''type'', JStr ''session.created'')]) ''type'' =
           Inr (JStr ''session.created'')"
    by simp
  have d: "get_prop (JObj [(''type'', JStr ''audio.delta'')]) ''type'' = Inr (JStr ''audio.delta'')"
    by simp
  have u: "read_prop (JObj [(''type'', JStr ''audio.delta'')]) ''audio'' = JUndefined"
    by (simp add: read_prop_def)
  have e: "rt_sent session_active = [] \<and> ws_sent session_active = []
           \<and> rt_readyState session_active = 1 \<and> ws_readyState session_active = 1"
    by (simp add: session_active_def)
  have 1: "ws_on_message (Some (JObj [(''event'', JStr ''media'')])) session_active =
     (None, session_active)"
    using inbound_frame_handling
            [of env_up session_active world_initial None "JObj [(''event'', JStr ''media'')]"
                TypeError] m p
    by blast
  have 2: "\<exists>s'. rt_on_message env_up (Some (JObj [(''type'', JStr ''session.created'')]))
              (session_active, world_initial) = (Fulfilled (), s', world_initial)
        \<and> rt_sent s' = [] \<and> ws_sent s' = []
        \<and> rt_readyState s' = 1 \<and> ws_readyState s' = 1"
    using inbound_frame_handling
            [of env_up session_active world_initial None JNull TypeError JNull
                "JObj [(''type'', JStr ''session.created'')]" "JStr ''session.created''"] t e
    by simp
  have 3: "rt_on_message env_up (Some (JObj [(''type'', JStr ''audio.delta'')]))
         (session_active, world_initial) =
       (Fulfilled (),
        session_active\<lparr>ws_sent :=
          [JObj [(''event'', JStr ''media''), (''media'', JObj [(''payload'', JUndefined)])]]\<rparr>,
        world_initial)"
    using inbound_frame_handling
            [of env_up session_active world_initial None JNull TypeError JNull
                "JObj [(''type'', JStr ''audio.delta'')]"] a d u e
    by simp
  from 1 2 3 show ?thesis by blast
qed

end
